theory Spec2Isabelle
  imports Main "HOL-Library.Word"
begin

section \<open>Realtime voice agent (W4_realtime_voice_agent_BLANK.py)\<close>

text \<open>
  Raw audio is a Python \<open>bytes\<close> object: a list of 8-bit words.
\<close>

type_synonym bytes = "8 word list"

subsection \<open>The queue of asyncio\<close>

text \<open>
  \<open>asyncio.Queue(maxsize=0)\<close> of the Python standard library: a maximum size that is
  zero or negative means that the queue has no limit; \<open>full()\<close> is then always false and
  \<open>put_nowait\<close> never raises \<open>QueueFull\<close>.
\<close>

record queue =
  maxsize :: int
  queue_items :: "bytes list"

datatype queue_error = QueueFull

definition Queue :: queue where
  "Queue = \<lparr>maxsize = 0, queue_items = []\<rparr>"

definition full :: "queue \<Rightarrow> bool" where
  "full q = (if maxsize q \<le> 0 then False else maxsize q \<le> int (length (queue_items q)))"

definition put_nowait :: "queue \<Rightarrow> bytes \<Rightarrow> queue_error + queue" where
  "put_nowait q item =
     (if full q then Inl QueueFull else Inr (q\<lparr>queue_items := queue_items q @ [item]\<rparr>))"

text \<open>A queue has a bound when its maximum size is positive.\<close>

definition bounded :: "queue \<Rightarrow> bool" where
  "bounded q = (0 < maxsize q)"

subsection \<open>The agent\<close>

record agent =
  websocket :: "string option"
  is_running :: bool
  audio_queue :: queue
  playback_queue :: queue
  is_speaking :: bool

text \<open>\<open>RealtimeVoiceAgent.__init__\<close>: both queues are made by \<open>asyncio.Queue()\<close>.\<close>

definition init_agent :: agent where
  "init_agent = \<lparr>websocket = None, is_running = False, audio_queue = Queue,
     playback_queue = Queue, is_speaking = False\<rparr>"

text \<open>
  What the program writes to the terminal: \<open>print(s)\<close> is a line,
  \<open>print(s, end="", flush=True)\<close> a fragment without a line end.
\<close>

datatype printed = Line string | Fragment string

text \<open>
  \<open>audio_callback\<close> of \<open>send_audio\<close>. The frame is \<open>indata.tobytes()\<close>; the status
  is the text of the flags of the stream, empty when no flag is set. The function has no
  \<open>await\<close>: it is an ordinary function that calls \<open>put_nowait\<close> once and passes over
  \<open>QueueFull\<close>. It returns what it printed and the agent.
\<close>

definition audio_callback :: "bytes \<Rightarrow> string \<Rightarrow> agent \<Rightarrow> printed list \<times> agent" where
  "audio_callback audio_bytes status a =
     (let out = (if status \<noteq> [] then [Line (''Audio input status: '' @ status)] else [])
      in case put_nowait (audio_queue a) audio_bytes of
           Inr q \<Rightarrow> (out, a\<lparr>audio_queue := q\<rparr>)
         | Inl QueueFull \<Rightarrow> (out, a))"

text \<open>The capture device calling the callback once per frame, in order.\<close>

fun capture :: "bytes list \<Rightarrow> agent \<Rightarrow> agent" where
  "capture [] a = a"
| "capture (frame # frames) a = capture frames (snd (audio_callback frame [] a))"

subsection \<open>The receiver\<close>

text \<open>
  An inbound event after \<open>json.loads\<close>: the value of \<open>event.get("type", "")\<close> and the
  fields the handlers read, \<open>None\<close> for a key that is absent.
\<close>

record event =
  ev_type :: string
  ev_transcript :: "string option"
  ev_delta :: "string option"
  ev_error_message :: "string option"

text \<open>
  One turn of the loop of \<open>receive_messages\<close> reads the socket: the read times out, the
  connection is closed, another exception is raised (a message that is not JSON, say), or
  a message arrives.
\<close>

datatype recv = Timeout | ConnectionClosed | Failure string | Message event

text \<open>
  The state of the receiver: the agent, the local \<open>audio_buffer\<close>, the terminal, and
  the arguments of the calls of \<open>play_audio\<close> so far, in order.
\<close>

record receiver =
  rx_agent :: agent
  audio_buffer :: "bytes list"
  stdout :: "printed list"
  play_audio_calls :: "bytes list"

definition print :: "printed \<Rightarrow> receiver \<Rightarrow> receiver" where
  "print x r = r\<lparr>stdout := stdout r @ [x]\<rparr>"

text \<open>
  \<open>play_audio\<close>: its guarded body is the placeholder \<open>pass\<close>; the call is recorded
  with its argument.
\<close>

definition play_audio :: "bytes \<Rightarrow> receiver \<Rightarrow> receiver" where
  "play_audio audio_bytes r = r\<lparr>play_audio_calls := play_audio_calls r @ [audio_bytes]\<rparr>"

definition set_speaking :: "bool \<Rightarrow> receiver \<Rightarrow> receiver" where
  "set_speaking b r = r\<lparr>rx_agent := (rx_agent r)\<lparr>is_speaking := b\<rparr>\<rparr>"

definition get_default :: "'a option \<Rightarrow> 'a \<Rightarrow> 'a" where
  "get_default v d = (case v of None \<Rightarrow> d | Some x \<Rightarrow> x)"

text \<open>
  The dispatch on the type of the event, in the order of the source. The branch of
  \<open>response.audio.delta\<close> is the placeholder \<open>pass\<close> of the source: it changes nothing.
\<close>

definition handle_event :: "event \<Rightarrow> receiver \<Rightarrow> receiver" where
  "handle_event ev r =
     (let event_type = ev_type ev in
      if event_type = ''session.created'' then print (Line ''Session created successfully'') r
      else if event_type = ''session.updated'' then print (Line ''Session updated'') r
      else if event_type = ''input_audio_buffer.speech_started''
        then set_speaking False (print (Line ''Listening...'') r)
      else if event_type = ''input_audio_buffer.speech_stopped''
        then print (Line ''Processing...'') r
      else if event_type = ''conversation.item.input_audio_transcription.completed''
        then (let transcript = get_default (ev_transcript ev) [] in
              if transcript \<noteq> [] then print (Line (''You: '' @ transcript)) r else r)
      else if event_type = ''response.audio_transcript.delta''
        then print (Fragment (get_default (ev_delta ev) [])) r
      else if event_type = ''response.audio_transcript.done'' then print (Line []) r
      else if event_type = ''response.audio.delta'' then r
      else if event_type = ''response.audio.done''
        then set_speaking False
               (if audio_buffer r \<noteq> []
                then (play_audio (concat (audio_buffer r)) r)\<lparr>audio_buffer := []\<rparr>
                else r)
      else if event_type = ''response.done'' then print (Line ''Response complete'') r
      else if event_type = ''error''
        then print (Line (''Error: '' @ get_default (ev_error_message ev) ''Unknown error'')) r
      else r)"

text \<open>
  The loop while the agent runs, over what the reads of the socket give. A closed
  connection leaves the loop; a timeout goes on; another exception is printed when the
  agent still runs.
\<close>

fun receive_loop :: "recv list \<Rightarrow> receiver \<Rightarrow> receiver" where
  "receive_loop [] r = r"
| "receive_loop (x # xs) r =
     (if \<not> is_running (rx_agent r) then r
      else case x of
             Timeout \<Rightarrow> receive_loop xs r
           | ConnectionClosed \<Rightarrow> print (Line ''Connection closed'') r
           | Failure e \<Rightarrow> receive_loop xs (print (Line (''Receive error: '' @ e)) r)
           | Message ev \<Rightarrow> receive_loop xs (handle_event ev r))"

text \<open>\<open>receive_messages\<close>: the buffer starts empty.\<close>

definition receive_messages :: "recv list \<Rightarrow> agent \<Rightarrow> receiver" where
  "receive_messages xs a =
     receive_loop xs \<lparr>rx_agent = a, audio_buffer = [], stdout = [], play_audio_calls = []\<rparr>"

definition audio_delta :: "string \<Rightarrow> event" where
  "audio_delta b64 = \<lparr>ev_type = ''response.audio.delta'', ev_transcript = None,
     ev_delta = Some b64, ev_error_message = None\<rparr>"

definition audio_done :: event where
  "audio_done = \<lparr>ev_type = ''response.audio.done'', ev_transcript = None,
     ev_delta = None, ev_error_message = None\<rparr>"

section \<open>Voice chat application (W4_voice_chat_app_BLANK.py)\<close>

subsection \<open>Session state\<close>

text \<open>
  A message of the transcript is a dictionary; a key that may be absent, and is read with
  \<open>get\<close>, is an option.
\<close>

record message =
  role :: string
  content :: string
  from_voice :: "bool option"
  audio :: "bytes option"
  just_generated :: "bool option"

record session =
  conversation_id :: "string option"
  messages :: "message list"
  voice_enabled :: bool
  selected_voice :: string
  auto_play :: bool
  transcription_language :: "string option"
  processed_audio_hash :: "string option"
  audio_input_key :: int
  input_mode :: string

text \<open>The session state of a new browser session (lines 69 to 94).\<close>

definition init_session :: session where
  "init_session = \<lparr>conversation_id = None, messages = [], voice_enabled = True,
     selected_voice = ''nova'', auto_play = True, transcription_language = Some ''en'',
     processed_audio_hash = None, audio_input_key = 0, input_mode = ''voice''\<rparr>"

text \<open>
  What a run of the script shows or asks of Streamlit. The two bubbles stand for the markup
  given to \<open>st.markdown\<close>; a container holds what one message of the history shows.
\<close>

datatype ui =
    UserBubble string bool
  | AiBubble string
  | AudioPlayer bytes bool
  | Container "ui list"
  | Spinner string
  | Warning string
  | Error string
  | Rerun

subsection \<open>Sidebar\<close>




text \<open>The button "New Conversation" (lines 143 to 148).\<close>

definition new_conversation :: "session \<Rightarrow> session \<times> ui list" where
  "new_conversation s =
     (s\<lparr>conversation_id := None, messages := [], processed_audio_hash := None,
        audio_input_key := audio_input_key s + 1\<rparr>, [Rerun])"

subsection \<open>Chat history\<close>





subsection \<open>Input\<close>


text \<open>
  \<open>compute_audio_hash\<close>: the body is the placeholder \<open>pass\<close>, so the function returns
  \<open>None\<close> for every clip.
\<close>

definition compute_audio_hash :: "bytes \<Rightarrow> string option" where
  "compute_audio_hash audio_bytes = None"

text \<open>
  \<open>process_user_input\<close> as the source has it: the user message is appended; the text of
  the reply is the placeholder; no audio is made; nothing else is appended.
\<close>

definition human_message :: "string \<Rightarrow> bool \<Rightarrow> message" where
  "human_message user_text fv = \<lparr>role = ''human'', content = user_text, from_voice = Some fv,
     audio = None, just_generated = None\<rparr>"

definition process_user_input :: "string \<Rightarrow> bool \<Rightarrow> session \<Rightarrow> session \<times> ui list" where
  "process_user_input user_text fv s =
     (let s1 = s\<lparr>messages := messages s @ [human_message user_text fv]\<rparr>;
          ai_text = ''TODO: Implement chatbot response'';
          audio_data = (None :: bytes option)
      in (s1, Spinner ''Thinking...'' #
              (if voice_enabled s1 then [Spinner ''Generating voice response...''] else [])))"

text \<open>
  Lines 327 to 340: what the handler of the recorder does with a transcript.
\<close>

definition handle_transcript :: "string \<Rightarrow> string option \<Rightarrow> session \<Rightarrow> session \<times> ui list" where
  "handle_transcript transcript audio_hash s =
     (if transcript \<noteq> []
      then (let s1 = s\<lparr>processed_audio_hash := audio_hash\<rparr>;
                s2 = s1\<lparr>audio_input_key := audio_input_key s1 + 1\<rparr>;
                (s3, shown) = process_user_input transcript True s2
            in (s3, shown @ [Rerun]))
      else (s, [Warning ''Could not transcribe audio. Please try again.'']))"

text \<open>
  Lines 298 to 343, for a recorded clip: the transcript is the placeholder, the empty
  string. No statement of the guarded block raises, so its handler is never entered.
\<close>

definition audio_input_handler :: "bytes \<Rightarrow> session \<Rightarrow> session \<times> ui list" where
  "audio_input_handler audio_bytes s =
     (let audio_hash = compute_audio_hash audio_bytes
      in if audio_hash \<noteq> processed_audio_hash s
         then (let transcript = [];
                   (s1, shown) = handle_transcript transcript audio_hash s
               in (s1, Spinner ''Transcribing your voice...'' # shown))
         else (s, []))"

text \<open>Lines 346 to 348: a text typed in the chat input; an empty value is false.\<close>

definition text_input_handler :: "string option \<Rightarrow> session \<Rightarrow> session \<times> ui list" where
  "text_input_handler text_input s =
     (case text_input of
        None \<Rightarrow> (s, [])
      | Some t \<Rightarrow> (if t \<noteq> []
                  then (let (s1, shown) = process_user_input t False s in (s1, shown @ [Rerun]))
                  else (s, [])))"

subsection \<open>Runs of the script\<close>








subsection \<open>Concrete inputs\<close>

text \<open>The agent after \<open>connect\<close>, when \<open>run\<close> has set \<open>is_running\<close>.\<close>

definition running_agent :: agent where
  "running_agent = init_agent\<lparr>
     websocket := Some ''wss://api.openai.com/v1/realtime?model=gpt-4o-realtime-preview'',
     is_running := True\<rparr>"

text \<open>A session that holds one exchange, the reply with audio and not yet played.\<close>

definition one_exchange :: session where
  "one_exchange = init_session\<lparr>conversation_id := Some ''abc123'',
     messages := [\<lparr>role = ''human'', content = ''hello'', from_voice = Some False,
                    audio = None, just_generated = None\<rparr>,
                  \<lparr>role = ''ai'', content = ''hi there'', from_voice = None,
                    audio = Some [73, 68, 51], just_generated = Some True\<rparr>]\<rparr>"


section \<open>Properties of the realtime voice agent\<close>

subsection \<open>Audio of a reply\<close>

lemma handle_event_keeps_buffer_empty:
  "audio_buffer r = [] \<Longrightarrow>
     audio_buffer (handle_event ev r) = [] \<and>
     play_audio_calls (handle_event ev r) = play_audio_calls r"
  by (simp add: handle_event_def Let_def print_def set_speaking_def)

lemma receive_loop_never_plays:
  "audio_buffer r = [] \<Longrightarrow>
     audio_buffer (receive_loop xs r) = [] \<and>
     play_audio_calls (receive_loop xs r) = play_audio_calls r"
proof (induction xs arbitrary: r)
  case Nil
  then show ?case by simp
next
  case (Cons x xs)
  show ?case
  proof (cases x)
    case Timeout
    with Cons show ?thesis by simp
  next
    case ConnectionClosed
    with Cons.prems show ?thesis by (simp add: print_def)
  next
    case (Failure e)
    with Cons.IH [of "print (Line (''Receive error: '' @ e)) r"] Cons.prems
    show ?thesis by (simp add: print_def)
  next
    case (Message ev)
    with Cons.IH [of "handle_event ev r"] handle_event_keeps_buffer_empty [OF Cons.prems, of ev]
      Cons.prems
    show ?thesis by simp
  qed
qed

lemma receive_messages_never_plays: "play_audio_calls (receive_messages xs a) = []"
  using receive_loop_never_plays
    [of "\<lparr>rx_agent = a, audio_buffer = [], stdout = [], play_audio_calls = []\<rparr>" xs]
  by (simp add: receive_messages_def)

text \<open>
  C1. The claim: a \<open>response.audio.delta\<close> event followed by a \<open>response.audio.done\<close>
  event gives exactly one call of \<open>play_audio\<close>, with the decoded bytes of the deltas in
  order. The code at a delta with the payload \<open>AAEC\<close> (the bytes 0, 1, 2) followed by
  the done event: the branch of the delta is the placeholder, nothing is buffered, and
  \<open>play_audio\<close> is not called at all.
\<close>

theorem delta_then_done_plays_nothing:
  "play_audio_calls
     (receive_messages [Message (audio_delta ''AAEC''), Message audio_done] running_agent) = []
   \<and> audio_buffer
     (receive_messages [Message (audio_delta ''AAEC''), Message audio_done] running_agent) = []"
  by (simp add: receive_messages_def running_agent_def init_agent_def handle_event_def
      audio_delta_def audio_done_def set_speaking_def)

subsection \<open>The capture callback\<close>

lemma capture_without_bound:
  "maxsize (audio_queue a) = 0 \<Longrightarrow>
     audio_queue (capture frames a) =
       (audio_queue a)\<lparr>queue_items := queue_items (audio_queue a) @ frames\<rparr>"
  by (induction frames arbitrary: a) (simp_all add: audio_callback_def put_nowait_def full_def)

lemma audio_callback_drops_or_enqueues:
  "snd (audio_callback frame status a) =
     (if full (audio_queue a) then a
      else a\<lparr>audio_queue :=
               (audio_queue a)\<lparr>queue_items := queue_items (audio_queue a) @ [frame]\<rparr>\<rparr>)"
  by (simp add: audio_callback_def put_nowait_def Let_def)

lemma capture_never_drops:
  "\<not> full (audio_queue (capture frames init_agent)) \<and>
   queue_items (audio_queue (capture frames init_agent)) = frames"
proof -
  have m: "maxsize (audio_queue init_agent) = 0"
    by (simp add: init_agent_def Queue_def)
  have "\<not> full (audio_queue (capture frames init_agent))"
    by (simp add: capture_without_bound [OF m] full_def m)
  moreover have "queue_items (audio_queue (capture frames init_agent)) = frames"
    by (simp add: capture_without_bound [OF m]) (simp add: init_agent_def Queue_def)
  ultimately show ?thesis by blast
qed

text \<open>
  C3. The claim: the send queue is bounded, and the callback drops the frame when the
  queue is full. The code, for the agent that \<open>__init__\<close> builds and three frames
  captured while nothing is taken from the queue: the queue is made by
  \<open>asyncio.Queue()\<close>, its maximum size is zero and it has no bound; it is not full
  before any of the three calls, so the branch of \<open>QueueFull\<close>, which the source
  comments with "Drop frame if queue is full", is not taken, and the three frames are all
  in the queue.
\<close>

theorem send_queue_has_no_bound:
  "\<not> bounded (audio_queue init_agent) \<and>
   maxsize (audio_queue init_agent) = 0 \<and>
   \<not> full (audio_queue init_agent) \<and>
   \<not> full (audio_queue (capture [[1, 2]] init_agent)) \<and>
   \<not> full (audio_queue (capture [[1, 2], [3, 4]] init_agent)) \<and>
   queue_items (audio_queue (capture [[1, 2], [3, 4], [5, 6]] init_agent)) =
     [[1, 2], [3, 4], [5, 6]]"
  by (simp add: bounded_def init_agent_def Queue_def audio_callback_def put_nowait_def full_def)

section \<open>Properties of the voice chat application\<close>

subsection \<open>New conversation\<close>

text \<open>
  C5. The claim: "New Conversation" clears the transcript and the identifier, and the next
  turn calls the chat function with an empty identifier. The code, from a session with
  one exchange: the action leaves an empty transcript and no identifier; the next turn,
  the typed text "how are you", appends the user message, shows the two spinners and asks
  for a rerun. It makes no call of the chat function, and no reply is appended.
\<close>

theorem new_conversation_then_turn:
  "fst (new_conversation one_exchange) =
     init_session\<lparr>audio_input_key := 1\<rparr>
   \<and> text_input_handler (Some ''how are you'') (fst (new_conversation one_exchange)) =
     (init_session\<lparr>audio_input_key := 1,
        messages := [human_message ''how are you'' False]\<rparr>,
      [Spinner ''Thinking...'', Spinner ''Generating voice response...'', Rerun])"
  by (simp add: new_conversation_def one_exchange_def init_session_def text_input_handler_def
      process_user_input_def human_message_def)

text \<open>
  C10. "New Conversation" leaves the five settings of the session as they are:
  \<open>voice_enabled\<close>, \<open>selected_voice\<close>, \<open>auto_play\<close>, \<open>transcription_language\<close>
  and \<open>input_mode\<close>. It changes the identifier, the transcript, the hash and the key of
  the recorder, and nothing else.
\<close>

theorem new_conversation_frame:
  "voice_enabled (fst (new_conversation s)) = voice_enabled s
   \<and> selected_voice (fst (new_conversation s)) = selected_voice s
   \<and> auto_play (fst (new_conversation s)) = auto_play s
   \<and> transcription_language (fst (new_conversation s)) = transcription_language s
   \<and> input_mode (fst (new_conversation s)) = input_mode s
   \<and> fst (new_conversation s) =
       s\<lparr>conversation_id := conversation_id (fst (new_conversation s)),
         messages := messages (fst (new_conversation s)),
         processed_audio_hash := processed_audio_hash (fst (new_conversation s)),
         audio_input_key := audio_input_key (fst (new_conversation s))\<rparr>"
  by (simp add: new_conversation_def)

subsection \<open>A user turn\<close>

text \<open>
  C6. The claim: from an empty conversation, the turn "hello" leaves a transcript of
  exactly two entries and the identifier \<open>abc123\<close> returned by the chat function, which
  the second turn sends. The code: after "hello" the transcript has one entry, the user
  message, and the identifier is still none; after "how are you" it has the two user
  messages and the identifier is still none.
\<close>

theorem hello_leaves_one_entry:
  "fst (process_user_input ''hello'' False init_session) =
     init_session\<lparr>messages := [human_message ''hello'' False]\<rparr>
   \<and> length (messages (fst (process_user_input ''hello'' False init_session))) = 1
   \<and> fst (process_user_input ''how are you'' False
            (fst (process_user_input ''hello'' False init_session))) =
     init_session\<lparr>messages := [human_message ''hello'' False,
                                human_message ''how are you'' False]\<rparr>
   \<and> conversation_id (fst (process_user_input ''how are you'' False
            (fst (process_user_input ''hello'' False init_session)))) = None"
  by (simp add: process_user_input_def init_session_def)

text \<open>
  C9. A typed text that is not empty is always processed: a user turn, the dictionary of
  lines 235 to 239 with the role \<open>human\<close>, the text as content and \<open>from_voice\<close>
  false, is appended to the transcript and nothing else of the session changes, whatever
  the transcript holds and whatever the hash of the last clip is. In particular a text
  equal to the content of the turn before it is appended again.
\<close>

theorem typed_text_is_appended:
  "t \<noteq> [] \<Longrightarrow>
     fst (text_input_handler (Some t) s) =
       s\<lparr>messages := messages s @
            [\<lparr>role = ''human'', content = t, from_voice = Some False, audio = None,
               just_generated = None\<rparr>]\<rparr>
     \<and> role (last (messages (fst (text_input_handler (Some t) s)))) = ''human''
     \<and> content (last (messages (fst (text_input_handler (Some t) s)))) = t
     \<and> from_voice (last (messages (fst (text_input_handler (Some t) s)))) = Some False
     \<and> length (messages (fst (text_input_handler (Some t) s))) = Suc (length (messages s))"
  by (simp add: text_input_handler_def process_user_input_def human_message_def Let_def)

theorem typed_text_is_appended_witness:
  "''hello'' \<noteq> [] \<and>
   messages (fst (text_input_handler (Some ''hello'')
       (init_session\<lparr>messages := [\<lparr>role = ''human'', content = ''hello'',
                                      from_voice = Some False, audio = None,
                                      just_generated = None\<rparr>],
                      input_mode := ''text''\<rparr>))) =
     [\<lparr>role = ''human'', content = ''hello'', from_voice = Some False, audio = None,
        just_generated = None\<rparr>,
      \<lparr>role = ''human'', content = ''hello'', from_voice = Some False, audio = None,
        just_generated = None\<rparr>]"
proof -
  have h: "''hello'' \<noteq> []" by simp
  show ?thesis
    using h typed_text_is_appended
      [OF h, of "init_session\<lparr>messages := [\<lparr>role = ''human'', content = ''hello'',
                                      from_voice = Some False, audio = None,
                                      just_generated = None\<rparr>],
                      input_mode := ''text''\<rparr>"]
    by simp
qed

subsection \<open>A recorded clip\<close>

text \<open>
  C4. A clip whose hash is the stored hash is skipped: the handler shows nothing, makes
  no transcription and no turn, and the session is as before. The stored hash is that of
  the clip once lines 327 to 338 have processed it (with a transcript that is not
  empty), so the same clip submitted again gives no new turn. Neither fact depends on
  what \<open>compute_audio_hash\<close> computes.
\<close>

theorem same_clip_is_skipped:
  "(compute_audio_hash b = processed_audio_hash s \<longrightarrow> audio_input_handler b s = (s, []))
   \<and> (t \<noteq> [] \<longrightarrow>
        audio_input_handler b (fst (handle_transcript t (compute_audio_hash b) s)) =
          (fst (handle_transcript t (compute_audio_hash b) s), []))"
  by (simp add: audio_input_handler_def handle_transcript_def process_user_input_def Let_def)

theorem same_clip_is_skipped_witness:
  "compute_audio_hash [82, 73, 70, 70] = processed_audio_hash init_session
   \<and> audio_input_handler [82, 73, 70, 70] init_session = (init_session, [])
   \<and> ''hello'' \<noteq> []
   \<and> messages (fst (handle_transcript ''hello'' (compute_audio_hash [82, 73, 70, 70])
                      init_session)) = [human_message ''hello'' True]
   \<and> audio_input_handler [82, 73, 70, 70]
       (fst (handle_transcript ''hello'' (compute_audio_hash [82, 73, 70, 70]) init_session)) =
     (fst (handle_transcript ''hello'' (compute_audio_hash [82, 73, 70, 70]) init_session), [])"
proof -
  have h1: "compute_audio_hash [82, 73, 70, 70] = processed_audio_hash init_session"
    by (simp add: compute_audio_hash_def init_session_def)
  have h2: "''hello'' \<noteq> []" by simp
  have m: "messages (fst (handle_transcript ''hello'' (compute_audio_hash [82, 73, 70, 70])
                      init_session)) = [human_message ''hello'' True]"
    by (simp add: handle_transcript_def process_user_input_def init_session_def)
  show ?thesis
    using h1 h2 m same_clip_is_skipped [of "[82, 73, 70, 70]" init_session "''hello''"]
    by blast
qed

text \<open>
  C7. An empty transcript gives the warning that asks to try again and nothing else: the
  session (transcript, identifier, hash, key of the recorder and all the rest) is as
  before, and \<open>process_user_input\<close> is not run. So it is for every clip that the handler
  takes as new, the transcript in the source being the placeholder, the empty string.
\<close>

theorem empty_transcript_changes_nothing:
  "handle_transcript [] audio_hash s =
     (s, [Warning ''Could not transcribe audio. Please try again.''])
   \<and> (compute_audio_hash b \<noteq> processed_audio_hash s \<longrightarrow>
        audio_input_handler b s =
          (s, [Spinner ''Transcribing your voice...'',
               Warning ''Could not transcribe audio. Please try again.'']))"
  by (simp add: audio_input_handler_def handle_transcript_def Let_def)

theorem empty_transcript_changes_nothing_witness:
  "compute_audio_hash [82, 73, 70, 70] \<noteq>
     processed_audio_hash (one_exchange\<lparr>processed_audio_hash :=
                              Some ''5289df737df57326fcdd22597afb1fac''\<rparr>)
   \<and> audio_input_handler [82, 73, 70, 70]
       (one_exchange\<lparr>processed_audio_hash := Some ''5289df737df57326fcdd22597afb1fac''\<rparr>) =
     (one_exchange\<lparr>processed_audio_hash := Some ''5289df737df57326fcdd22597afb1fac''\<rparr>,
      [Spinner ''Transcribing your voice...'',
       Warning ''Could not transcribe audio. Please try again.''])"
proof -
  have h: "compute_audio_hash [82, 73, 70, 70] \<noteq>
     processed_audio_hash (one_exchange\<lparr>processed_audio_hash :=
                              Some ''5289df737df57326fcdd22597afb1fac''\<rparr>)"
    by (simp add: compute_audio_hash_def)
  show ?thesis
    using h empty_transcript_changes_nothing
      [of None "one_exchange\<lparr>processed_audio_hash := Some ''5289df737df57326fcdd22597afb1fac''\<rparr>"
          "[82, 73, 70, 70]"]
    by blast
qed

subsection \<open>Autoplay of a reply\<close>





















end
